theory Spec2Isabelle
  imports Main
begin

section \<open>Values, documents and responses\<close>

text \<open>
  The program is a single Express application (\<^verbatim>\<open>index.js\<close>).  Its handlers are
  embedded below as functions from the request data, the clock and the state of the
  collaborators (the two MongoDB collections and the process-wide cache) to a response
  and the new state.  Time is \<^verbatim>\<open>Date.now()\<close>: milliseconds, a natural number.
  A string is the sequence of the UTF-8 bytes of the JavaScript string; document ids
  (ObjectId) are strings.
\<close>

type_synonym time = nat

text \<open>
  A value of a field of a JSON request body; a field that is missing from the body is
  \<open>None\<close> (JavaScript's \<^verbatim>\<open>undefined\<close>).  Numbers are integers.  (The handlers
  read a number through its string form and through its being 1 or 0; a number that is
  not an integer has a string form of three or more characters and is neither.)
\<close>

datatype json =
    JNull | JBool bool | JNum int | JStr string | JArr "json list" | JObj "(string \<times> json) list"

record reqbody =
  b_title :: "json option"
  b_complete :: "json option"
  b_userId :: "json option"
  b_username :: "json option"
  b_password :: "json option"

text \<open>
  The documents of \<^verbatim>\<open>taskSchema\<close> and \<^verbatim>\<open>userSchema\<close> (both with timestamps).
  The owner of a task is \<open>None\<close> when the stored \<^verbatim>\<open>userId\<close> is \<^verbatim>\<open>null\<close>.
\<close>

record task =
  t_id :: string
  title :: string
  complete :: bool
  userId :: "string option"
  createdAt :: time
  updatedAt :: time

text \<open>
  The stored password is the output of \<^verbatim>\<open>bcrypt.hash\<close>, kept symbolic: the cost, the
  salt and the bytes of the password that bcrypt reads (its first 72).
\<close>

datatype pwhash = Bcrypt nat string string

record user =
  u_id :: string
  username :: string
  password :: pwhash
  u_createdAt :: time

text \<open>
  A token of the \<^verbatim>\<open>jsonwebtoken\<close> package, kept symbolic: either a string that does
  not decode, or a payload together with its HS256 signature, which is determined by the
  key and the signed payload.
\<close>

record payload =
  p_id :: string
  iat :: nat
  exp :: "nat option"

datatype mac = HS256 string payload

datatype token = Malformed | Compact payload mac

datatype jwt_error = JsonWebTokenError string | TokenExpiredError

text \<open>One entry of \<^verbatim>\<open>errors.array()\<close> of express-validator: the field it refers to.\<close>

datatype verror = Invalid string

datatype body =
    ErrorBody string
  | ErrorMessage string string
  | ErrorDetails string string
  | ErrorsBody "verror list"
  | TaskBody task
  | TasksBody "task list"
  | MessageBody string
  | MessageTask string task
  | TokenBody token
  | SignupBody string token string string time

datatype response = Response nat body

fun status :: "response \<Rightarrow> nat" where
  "status (Response c b) = c"


section \<open>Strings\<close>

definition startsWith :: "string \<Rightarrow> string \<Rightarrow> bool" where
  "startsWith s p = (take (length p) s = p)"

text \<open>\<^verbatim>\<open>String.prototype.replace\<close> with a string pattern: the first occurrence only.\<close>

fun replace_first :: "string \<Rightarrow> string \<Rightarrow> string \<Rightarrow> string" where
  "replace_first pat rep [] = (if pat = [] then rep else [])"
| "replace_first pat rep (c # cs) =
     (if startsWith (c # cs) pat then rep @ drop (length pat) (c # cs)
      else c # replace_first pat rep cs)"

text \<open>
  The white space of JavaScript (\<^verbatim>\<open>String.prototype.trim\<close> and the white space class of a
  regular expression, which validator.js trims with), as UTF-8: tab, line feed, vertical
  tab, form feed, carriage return, space, U+00A0, U+1680, U+2000 to U+200A, U+2028,
  U+2029, U+202F, U+205F, U+3000 and U+FEFF.
\<close>

definition whitespace :: "string list" where
  "whitespace =
     [[CHR 0x09], [CHR 0x0A], [CHR 0x0B], [CHR 0x0C], [CHR 0x0D], [CHR 0x20],
      [CHR 0xC2, CHR 0xA0], [CHR 0xE1, CHR 0x9A, CHR 0x80],
      [CHR 0xE2, CHR 0x80, CHR 0x80], [CHR 0xE2, CHR 0x80, CHR 0x81],
      [CHR 0xE2, CHR 0x80, CHR 0x82], [CHR 0xE2, CHR 0x80, CHR 0x83],
      [CHR 0xE2, CHR 0x80, CHR 0x84], [CHR 0xE2, CHR 0x80, CHR 0x85],
      [CHR 0xE2, CHR 0x80, CHR 0x86], [CHR 0xE2, CHR 0x80, CHR 0x87],
      [CHR 0xE2, CHR 0x80, CHR 0x88], [CHR 0xE2, CHR 0x80, CHR 0x89],
      [CHR 0xE2, CHR 0x80, CHR 0x8A], [CHR 0xE2, CHR 0x80, CHR 0xA8],
      [CHR 0xE2, CHR 0x80, CHR 0xA9], [CHR 0xE2, CHR 0x80, CHR 0xAF],
      [CHR 0xE2, CHR 0x81, CHR 0x9F], [CHR 0xE3, CHR 0x80, CHR 0x80],
      [CHR 0xEF, CHR 0xBB, CHR 0xBF]]"

text \<open>Dropping from the front of a string every leading occurrence of the given sequences.\<close>

function strip :: "string list \<Rightarrow> string \<Rightarrow> string" where
  "strip seqs s =
     (case find (\<lambda>w. w \<noteq> [] \<and> startsWith s w) seqs of
        None \<Rightarrow> s
      | Some w \<Rightarrow> strip seqs (drop (length w) s))"
  by pat_completeness auto
termination
proof (relation "measure (\<lambda>(seqs, s). length s)")
  show "wf (measure (\<lambda>(seqs, s). length s))" by simp
next
  fix seqs :: "string list" and s w :: string
  assume "find (\<lambda>w. w \<noteq> [] \<and> startsWith s w) seqs = Some w"
  then have "w \<noteq> []" and "take (length w) s = w"
    by (auto simp: find_Some_iff startsWith_def)
  then have "0 < length w" and "length w \<le> length s"
    by (auto simp: min_def dest: arg_cong [where f = length] split: if_splits)
  then show "((seqs, drop (length w) s), (seqs, s)) \<in> measure (\<lambda>(seqs, s). length s)"
    by (simp del: length_greater_0_conv)
qed

declare strip.simps [simp del]

definition trim :: "string \<Rightarrow> string" where
  "trim s = rev (strip (map rev whitespace) (rev (strip whitespace s)))"

text \<open>
  The length validator.js measures in \<^verbatim>\<open>isLength\<close>: the UTF-16 length less the
  surrogate pairs and the variation selectors U+FE0E and U+FE0F, that is, the code
  points (the bytes that are not continuation bytes) less those selectors.
\<close>

definition continuation :: "char \<Rightarrow> bool" where
  "continuation c = (128 \<le> (of_char c :: nat) \<and> (of_char c :: nat) < 192)"

fun selectors :: "string \<Rightarrow> nat" where
  "selectors (a # b # c # s) =
     (if a = CHR 0xEF \<and> b = CHR 0xB8 \<and> (c = CHR 0x8E \<or> c = CHR 0x8F) then 1 else 0)
     + selectors (b # c # s)"
| "selectors s = 0"

definition vlen :: "string \<Rightarrow> nat" where
  "vlen s = length (filter (\<lambda>c. \<not> continuation c) s) - selectors s"

section \<open>Token Service\<close>

definition JWT_SECRET :: "string option \<Rightarrow> string" where
  "JWT_SECRET env =
     (case env of None \<Rightarrow> ''change-me-in-env''
      | Some s \<Rightarrow> if s = [] then ''change-me-in-env'' else s)"

text \<open>
  Modelled from the spec: \<^verbatim>\<open>jwt.sign\<close> and \<^verbatim>\<open>jwt.verify\<close> belong to the
  jsonwebtoken package, whose code is not part of the repository.  Section 4.1:
  \<open>issue\<close> produces a signed token embedding the subject id and an absolute expiry;
  \<open>verify\<close> fails if the signature does not match, the token is malformed, or the
  current time is at or past the embedded expiry, with no clock-skew tolerance.  The
  package keeps time in whole seconds.
\<close>

definition jwt_sign :: "string \<Rightarrow> string \<Rightarrow> nat \<Rightarrow> time \<Rightarrow> token" where
  "jwt_sign uid secret expiresIn now =
     (let p = \<lparr>p_id = uid, iat = now div 1000, exp = Some (now div 1000 + expiresIn)\<rparr>
      in Compact p (HS256 secret p))"

definition jwt_verify :: "token \<Rightarrow> string \<Rightarrow> time \<Rightarrow> jwt_error + payload" where
  "jwt_verify tok secret now =
     (case tok of
        Malformed \<Rightarrow> Inl (JsonWebTokenError ''jwt malformed'')
      | Compact p m \<Rightarrow>
          if m \<noteq> HS256 secret p then Inl (JsonWebTokenError ''invalid signature'')
          else (case exp p of
                  None \<Rightarrow> Inr p
                | Some e \<Rightarrow> if e \<le> now div 1000 then Inl TokenExpiredError else Inr p))"

text \<open>The call of lines 121 and 152: \<^verbatim>\<open>jwt.sign({ id }, JWT_SECRET, { expiresIn: "1h" })\<close>.\<close>

definition issue :: "string option \<Rightarrow> string \<Rightarrow> time \<Rightarrow> token" where
  "issue env uid now = jwt_sign uid (JWT_SECRET env) 3600 now"

text \<open>The three ways a token can fail, read off the token alone.\<close>

fun malformed :: "token \<Rightarrow> bool" where
  "malformed Malformed = True"
| "malformed (Compact p m) = False"

fun signature_valid :: "token \<Rightarrow> string \<Rightarrow> bool" where
  "signature_valid Malformed secret = False"
| "signature_valid (Compact p m) secret = (m = HS256 secret p)"

fun expired :: "token \<Rightarrow> time \<Rightarrow> bool" where
  "expired Malformed now = False"
| "expired (Compact p m) now = (case exp p of None \<Rightarrow> False | Some e \<Rightarrow> e \<le> now div 1000)"

section \<open>Identity Middleware\<close>

text \<open>
  \<^verbatim>\<open>auth\<close> (lines 70 to 83).  The header is a string or absent.  The verifier is the
  function \<^verbatim>\<open>jwt.verify\<close> on token strings and is a parameter.  The middleware either
  answers itself, or calls \<^verbatim>\<open>next()\<close> with \<^verbatim>\<open>req.user.id\<close> bound.
\<close>

record request =
  authorization :: "string option"

datatype auth_result = Rejected response | Next string

definition auth ::
  "(string \<Rightarrow> string \<Rightarrow> time \<Rightarrow> jwt_error + payload) \<Rightarrow> string \<Rightarrow> time \<Rightarrow> request \<Rightarrow> auth_result"
where
  "auth verify secret now req =
     (let raw = authorization req;
          token = (case raw of
                     None \<Rightarrow> None
                   | Some r \<Rightarrow>
                       if startsWith r ''Bearer '' then Some (replace_first ''Bearer '' [] r)
                       else None)
      in case token of
           None \<Rightarrow> Rejected (Response 401 (ErrorBody ''Access denied: missing token''))
         | Some t \<Rightarrow>
             if t = [] then Rejected (Response 401 (ErrorBody ''Access denied: missing token''))
             else (case verify t secret now of
                     Inl e \<Rightarrow> Rejected (Response 401 (ErrorBody ''Invalid or expired token''))
                   | Inr decoded \<Rightarrow> Next (p_id decoded)))"

text \<open>A route registered behind \<^verbatim>\<open>auth\<close>: the handler runs only after \<^verbatim>\<open>next()\<close>.\<close>

definition protected ::
  "(string \<Rightarrow> string \<Rightarrow> time \<Rightarrow> jwt_error + payload) \<Rightarrow> string \<Rightarrow> time \<Rightarrow> request \<Rightarrow>
   (string \<Rightarrow> 's \<Rightarrow> response \<times> 's) \<Rightarrow> 's \<Rightarrow> response \<times> 's"
where
  "protected verify secret now req handler s =
     (case auth verify secret now req of
        Rejected r \<Rightarrow> (r, s)
      | Next uid \<Rightarrow> handler uid s)"

section \<open>Request validation\<close>

text \<open>
  The validation chains of lines 85 to 103 are built from express-validator.  A chain
  runs its items in order on one field.  A standard validator is a predicate of
  validator.js on strings: it is given the string form of the value, or, when the value
  is an array, of each of its elements in turn, and adds one entry for the field per
  failure.  \<^verbatim>\<open>isString()\<close> is a custom validator and sees the value itself.  A
  sanitizer rewrites the field for the items after it and for the handler.
\<close>

fun show_nat :: "nat \<Rightarrow> string" where
  "show_nat n =
     (if n < 10 then [char_of (48 + n)] else show_nat (n div 10) @ [char_of (48 + n mod 10)])"

declare show_nat.simps [simp del]

definition show_int :: "int \<Rightarrow> string" where
  "show_int i = (if i < 0 then CHR ''-'' # show_nat (nat (- i)) else show_nat (nat i))"

text \<open>\<^verbatim>\<open>Array.prototype.join\<close> with the comma.\<close>

fun join :: "string list \<Rightarrow> string" where
  "join [] = []"
| "join [x] = x"
| "join (x # y # r) = x @ '','' @ join (y # r)"

text \<open>
  The string form of a value, as express-validator (version 7) and mongoose take it:
  \<^verbatim>\<open>null\<close> reads as the empty string, an array as its elements' forms joined, an
  object as \<^verbatim>\<open>[object Object]\<close>.
\<close>

fun jsString :: "json \<Rightarrow> string" where
  "jsString JNull = []"
| "jsString (JBool b) = (if b then ''true'' else ''false'')"
| "jsString (JNum n) = show_int n"
| "jsString (JStr s) = s"
| "jsString (JArr xs) = join (map jsString xs)"
| "jsString (JObj kvs) = ''[object Object]''"

definition toString :: "json option \<Rightarrow> string" where
  "toString v = (case v of None \<Rightarrow> [] | Some x \<Rightarrow> jsString x)"

fun items :: "json option \<Rightarrow> json option list" where
  "items (Some (JArr xs)) = map Some xs"
| "items v = [v]"

definition check :: "string \<Rightarrow> bool \<Rightarrow> verror list" where
  "check field ok = (if ok then [] else [Invalid field])"

definition standard :: "string \<Rightarrow> (string \<Rightarrow> bool) \<Rightarrow> json option \<Rightarrow> verror list" where
  "standard field valid v = concat (map (\<lambda>x. check field (valid (toString x))) (items v))"

fun isString :: "json option \<Rightarrow> bool" where
  "isString (Some (JStr s)) = True"
| "isString v = False"

definition notEmpty :: "string \<Rightarrow> bool" where
  "notEmpty s = (s \<noteq> [])"

definition isLength :: "nat \<Rightarrow> nat option \<Rightarrow> string \<Rightarrow> bool" where
  "isLength lo hi s = (lo \<le> vlen s \<and> (case hi of None \<Rightarrow> True | Some h \<Rightarrow> vlen s \<le> h))"

text \<open>
  \<^verbatim>\<open>isBoolean()\<close> is called without \<^verbatim>\<open>{ strict: true }\<close>: it is then the standard
  validator of validator.js, which accepts exactly the strings
  \<^verbatim>\<open>"true", "false", "1", "0"\<close>.
\<close>

definition isBoolean :: "string \<Rightarrow> bool" where
  "isBoolean s = (s \<in> set [''true'', ''false'', ''1'', ''0''])"

text \<open>
  The sanitizer \<^verbatim>\<open>trim()\<close>: the trimmed string form of the value, or of each element
  of an array.  (A field that is missing stays missing here; the chains that are not
  optional have failed by then and the handler does not read it.)
\<close>

fun trim_field :: "json option \<Rightarrow> json option" where
  "trim_field None = None"
| "trim_field (Some (JArr xs)) = Some (JArr (map (\<lambda>x. JStr (trim (jsString x))) xs))"
| "trim_field (Some x) = Some (JStr (trim (jsString x)))"

text \<open>
  Each chain gives the entries of \<^verbatim>\<open>validationResult(req).array()\<close> for its field;
  the sanitized body is what the handler reads afterwards.  A chain that starts with
  \<^verbatim>\<open>optional()\<close> is skipped when the field is missing.
\<close>

definition chain_title :: "json option \<Rightarrow> verror list" where
  "chain_title v =
     check ''title'' (isString v) @ standard ''title'' notEmpty v @
     standard ''title'' (isLength 3 None) (trim_field v)"

definition chain_complete :: "json option \<Rightarrow> verror list" where
  "chain_complete v = (case v of None \<Rightarrow> [] | Some x \<Rightarrow> standard ''complete'' isBoolean v)"

definition sanitize_title :: "reqbody \<Rightarrow> reqbody" where
  "sanitize_title b = b\<lparr>b_title := trim_field (b_title b)\<rparr>"

definition validateTaskCreate :: "reqbody \<Rightarrow> verror list" where
  "validateTaskCreate b = chain_title (b_title b) @ chain_complete (b_complete b)"

definition validateTaskUpdate :: "reqbody \<Rightarrow> verror list" where
  "validateTaskUpdate b =
     (case b_title b of None \<Rightarrow> [] | Some x \<Rightarrow> chain_title (b_title b)) @
     chain_complete (b_complete b)"

definition validateSignup :: "reqbody \<Rightarrow> verror list" where
  "validateSignup b =
     check ''username'' (isString (b_username b)) @
     standard ''username'' notEmpty (b_username b) @
     standard ''username'' (isLength 3 (Some 30)) (trim_field (b_username b)) @
     check ''password'' (isString (b_password b)) @
     standard ''password'' notEmpty (b_password b) @
     standard ''password'' (isLength 6 None) (b_password b)"

definition validateLogin :: "reqbody \<Rightarrow> verror list" where
  "validateLogin b =
     check ''username'' (isString (b_username b)) @
     standard ''username'' notEmpty (b_username b) @
     check ''password'' (isString (b_password b)) @
     standard ''password'' notEmpty (b_password b)"

section \<open>Task Cache\<close>

text \<open>
  Modelled from the spec: the \<^verbatim>\<open>node-cache\<close> package behind \<^verbatim>\<open>cache.get\<close>,
  \<^verbatim>\<open>cache.set\<close> and \<^verbatim>\<open>cache.del\<close> is not part of the repository.  Section 4.3:
  \<open>get\<close> returns the cached list if present and unexpired (TTL fixed at 600 seconds from
  insertion), else nothing; \<open>put\<close> stores or replaces the entry, resetting its TTL clock;
  \<open>invalidate\<close> unconditionally removes any entry.  Section 3: an entry is never served
  past its TTL; glossary: the TTL is the duration after which an entry is stale.  As in
  the package, an entry carries the instant at which its life ends, insertion plus the
  TTL (0 for no limit); a read finds it expired, and removes it, once that instant is
  less than the clock.
\<close>

record entry =
  cached :: "task list"
  expires :: time

type_synonym cache = "string \<Rightarrow> entry option"

definition stdTTL :: nat where
  "stdTTL = 600"

definition cache_set :: "cache \<Rightarrow> string \<Rightarrow> task list \<Rightarrow> time \<Rightarrow> cache" where
  "cache_set c key val now =
     c(key \<mapsto> \<lparr>cached = val, expires = (if stdTTL = 0 then 0 else now + stdTTL * 1000)\<rparr>)"

definition cache_get :: "cache \<Rightarrow> string \<Rightarrow> time \<Rightarrow> task list option \<times> cache" where
  "cache_get c key now =
     (case c key of
        None \<Rightarrow> (None, c)
      | Some e \<Rightarrow>
          if expires e \<noteq> 0 \<and> expires e < now then (None, c(key := None))
          else (Some (cached e), c))"

definition cache_del :: "cache \<Rightarrow> string \<Rightarrow> cache" where
  "cache_del c key = c(key := None)"

definition cacheKey :: "string \<Rightarrow> string" where
  "cacheKey uid = ''tasks_'' @ uid"

section \<open>Task Store\<close>

text \<open>
  The \<^verbatim>\<open>tasks\<close> collection, in insertion order, behind the mongoose calls of the
  handlers.  A call either returns or throws (lost connection, a failed cast, a rejected
  write); which of the two is an input of the handler.  The collection has MongoDB's
  unique index on \<^verbatim>\<open>_id\<close>: inserting a document whose id is taken throws.
\<close>

datatype db = Returns | Throws string

text \<open>\<^verbatim>\<open>Task.find({ userId }).sort({ createdAt: -1 })\<close>\<close>

definition Task_find :: "string \<Rightarrow> task list \<Rightarrow> task list" where
  "Task_find uid ts =
     sort_key (\<lambda>t. - int (createdAt t)) (filter (\<lambda>t. userId t = Some uid) ts)"

text \<open>\<^verbatim>\<open>Task.findOne({ _id, userId })\<close>\<close>

definition Task_findOne :: "string \<Rightarrow> string \<Rightarrow> task list \<Rightarrow> task option" where
  "Task_findOne tid uid ts = find (\<lambda>t. t_id t = tid \<and> userId t = Some uid) ts"

text \<open>
  Mongoose casts the values it is given to the types of the schema; \<open>None\<close> is a value
  the path does not take: the call throws.  A boolean path takes
  \<^verbatim>\<open>true, "true", 1, "1", "yes"\<close> and \<^verbatim>\<open>false, "false", 0, "0", "no"\<close>.  A string
  path takes the string form of a scalar and applies the schema's \<^verbatim>\<open>trim\<close>.  An
  ObjectId path takes a string of 24 hexadecimal digits, and \<^verbatim>\<open>null\<close>; the
  drivers before bson 5 also take any string of 12 bytes, which no statement below
  depends on.  (A \<^verbatim>\<open>null\<close> title or flag never reaches a cast: validation rejects
  it first.)
\<close>

fun castBoolean :: "json \<Rightarrow> bool option" where
  "castBoolean (JBool b) = Some b"
| "castBoolean (JStr s) =
     (if s \<in> set [''true'', ''1'', ''yes''] then Some True
      else if s \<in> set [''false'', ''0'', ''no''] then Some False else None)"
| "castBoolean (JNum n) = (if n = 1 then Some True else if n = 0 then Some False else None)"
| "castBoolean v = None"

fun castString :: "json \<Rightarrow> string option" where
  "castString JNull = None"
| "castString (JArr xs) = None"
| "castString (JObj kvs) = None"
| "castString v = Some (trim (jsString v))"

definition isObjectId :: "string \<Rightarrow> bool" where
  "isObjectId s = (length s = 24 \<and> list_all (\<lambda>c. c \<in> set ''0123456789abcdefABCDEF'') s)"

fun castObjectId :: "json \<Rightarrow> string option option" where
  "castObjectId JNull = Some None"
| "castObjectId (JStr s) = (if isObjectId s then Some (Some s) else None)"
| "castObjectId v = None"

text \<open>
  \<^verbatim>\<open>new Task({ title, complete, userId })\<close> of line 184, with the id the driver
  generated and the timestamps of the schema.
\<close>

definition new_Task :: "json option \<Rightarrow> json \<Rightarrow> string \<Rightarrow> string \<Rightarrow> time \<Rightarrow> task option" where
  "new_Task ttl cmp uid newId now =
     (case ttl of
        None \<Rightarrow> None
      | Some tv \<Rightarrow>
          (case castString tv of
             None \<Rightarrow> None
           | Some s \<Rightarrow>
               (case castBoolean cmp of
                  None \<Rightarrow> None
                | Some c \<Rightarrow>
                    if s = [] then None
                    else Some \<lparr>t_id = newId, title = s, complete = c, userId = Some uid,
                                createdAt = now, updatedAt = now\<rparr>)))"

text \<open>
  The update document mongoose derives from \<^verbatim>\<open>req.body\<close> in
  \<^verbatim>\<open>findOneAndUpdate(filter, req.body, { new: true })\<close>: every key of the body that is a
  path of the schema is set, after its cast.  The paths a body can carry here are
  \<^verbatim>\<open>title\<close>, \<^verbatim>\<open>complete\<close> and \<^verbatim>\<open>userId\<close>; MongoDB refuses a change of
  \<^verbatim>\<open>_id\<close> (the call throws).  In the document, \<open>None\<close> leaves a path as it is.
\<close>

record update_doc =
  set_title :: "string option"
  set_complete :: "bool option"
  set_userId :: "string option option"

fun cast_path :: "(json \<Rightarrow> 'a option) \<Rightarrow> json option \<Rightarrow> 'a option option" where
  "cast_path cast None = Some None"
| "cast_path cast (Some v) = (case cast v of None \<Rightarrow> None | Some x \<Rightarrow> Some (Some x))"

definition cast_update :: "reqbody \<Rightarrow> update_doc option" where
  "cast_update b =
     (case cast_path castString (b_title b) of
        None \<Rightarrow> None
      | Some ttl \<Rightarrow>
          (case cast_path castBoolean (b_complete b) of
             None \<Rightarrow> None
           | Some cmp \<Rightarrow>
               (case cast_path castObjectId (b_userId b) of
                  None \<Rightarrow> None
                | Some own \<Rightarrow> Some \<lparr>set_title = ttl, set_complete = cmp, set_userId = own\<rparr>)))"

definition apply_update :: "update_doc \<Rightarrow> time \<Rightarrow> task \<Rightarrow> task" where
  "apply_update u now t =
     t\<lparr>title := (case set_title u of None \<Rightarrow> title t | Some s \<Rightarrow> s),
       complete := (case set_complete u of None \<Rightarrow> complete t | Some c \<Rightarrow> c),
       userId := (case set_userId u of None \<Rightarrow> userId t | Some w \<Rightarrow> w),
       updatedAt := now\<rparr>"

text \<open>
  \<^verbatim>\<open>findOneAndUpdate\<close> and \<^verbatim>\<open>findOneAndDelete\<close>: the first document that matches
  the filter is rewritten (and returned as rewritten, \<^verbatim>\<open>new: true\<close>) or removed.
\<close>

fun Task_findOneAndUpdate ::
  "string \<Rightarrow> string \<Rightarrow> update_doc \<Rightarrow> time \<Rightarrow> task list \<Rightarrow> task option \<times> task list" where
  "Task_findOneAndUpdate tid uid u now [] = (None, [])"
| "Task_findOneAndUpdate tid uid u now (t # ts) =
     (if t_id t = tid \<and> userId t = Some uid
      then (Some (apply_update u now t), apply_update u now t # ts)
      else (case Task_findOneAndUpdate tid uid u now ts of (r, ts') \<Rightarrow> (r, t # ts')))"

fun Task_findOneAndDelete :: "string \<Rightarrow> string \<Rightarrow> task list \<Rightarrow> task option \<times> task list" where
  "Task_findOneAndDelete tid uid [] = (None, [])"
| "Task_findOneAndDelete tid uid (t # ts) =
     (if t_id t = tid \<and> userId t = Some uid then (Some t, ts)
      else (case Task_findOneAndDelete tid uid ts of (r, ts') \<Rightarrow> (r, t # ts')))"

section \<open>Task Service\<close>

record tstate =
  tasks :: "task list"
  cache :: cache

definition init :: tstate where
  "init = \<lparr>tasks = [], cache = (\<lambda>k. None)\<rparr>"

definition internal_error :: response where
  "internal_error = Response 500 (ErrorBody ''Internal server error'')"

text \<open>
  \<^verbatim>\<open>GET /tasks\<close>, lines 160 to 175.  The handler runs in two parts, and other
  requests can be served in between: up to the awaited \<^verbatim>\<open>Task.find\<close> (the cache is
  read and, on a miss, the collection is queried), and from its result on (the result is
  cached and sent).  \<open>listTasks\<close> is a list request that nothing overlaps.
\<close>

datatype fetch = Answered response | Fetched "task list"

definition listTasks_begin :: "string \<Rightarrow> db \<Rightarrow> time \<Rightarrow> tstate \<Rightarrow> fetch \<times> tstate" where
  "listTasks_begin uid d now s =
     (case cache_get (cache s) (cacheKey uid) now of
        (Some l, c) \<Rightarrow> (Answered (Response 200 (TasksBody l)), s\<lparr>cache := c\<rparr>)
      | (None, c) \<Rightarrow>
          (case d of
             Throws m \<Rightarrow> (Answered internal_error, s\<lparr>cache := c\<rparr>)
           | Returns \<Rightarrow> (Fetched (Task_find uid (tasks s)), s\<lparr>cache := c\<rparr>)))"

definition listTasks_end :: "string \<Rightarrow> task list \<Rightarrow> time \<Rightarrow> tstate \<Rightarrow> response \<times> tstate" where
  "listTasks_end uid found now s =
     (Response 200 (TasksBody found),
      s\<lparr>cache := cache_set (cache s) (cacheKey uid) found now\<rparr>)"

definition listTasks :: "string \<Rightarrow> db \<Rightarrow> time \<Rightarrow> tstate \<Rightarrow> response \<times> tstate" where
  "listTasks uid d now s =
     (case listTasks_begin uid d now s of
        (Answered r, s') \<Rightarrow> (r, s')
      | (Fetched found, s') \<Rightarrow> listTasks_end uid found now s')"

text \<open>\<^verbatim>\<open>POST /tasks\<close>, lines 177 to 193.\<close>

definition createTask ::
  "string \<Rightarrow> reqbody \<Rightarrow> string \<Rightarrow> db \<Rightarrow> time \<Rightarrow> tstate \<Rightarrow> response \<times> tstate" where
  "createTask uid b newId d now s =
     (let errors = validateTaskCreate b; b' = sanitize_title b
      in if errors \<noteq> [] then (Response 400 (ErrorsBody errors), s)
         else
           (let ttl = b_title b';
                cmp = (case b_complete b' of None \<Rightarrow> JBool False | Some c \<Rightarrow> c)
            in case new_Task ttl cmp uid newId now of
                 None \<Rightarrow> (internal_error, s)
               | Some task \<Rightarrow>
                   (case d of
                      Throws m \<Rightarrow> (internal_error, s)
                    | Returns \<Rightarrow>
                        if newId \<in> set (map t_id (tasks s)) then (internal_error, s)
                        else (Response 201 (TaskBody task),
                              \<lparr>tasks = tasks s @ [task],
                               cache = cache_del (cache s) (cacheKey uid)\<rparr>))))"


text \<open>\<^verbatim>\<open>PUT /tasks/:id\<close>, lines 216 to 235.\<close>

definition updateTask ::
  "string \<Rightarrow> string \<Rightarrow> reqbody \<Rightarrow> db \<Rightarrow> time \<Rightarrow> tstate \<Rightarrow> response \<times> tstate" where
  "updateTask uid tid b d now s =
     (let errors = validateTaskUpdate b; b' = sanitize_title b
      in if errors \<noteq> [] then (Response 400 (ErrorsBody errors), s)
         else
           (case d of
              Throws m \<Rightarrow> (internal_error, s)
            | Returns \<Rightarrow>
                (case cast_update b' of
                   None \<Rightarrow> (internal_error, s)
                 | Some u \<Rightarrow>
                     (case Task_findOneAndUpdate tid uid u now (tasks s) of
                        (None, ts') \<Rightarrow> (Response 404 (ErrorBody ''Task not found''), s)
                      | (Some task, ts') \<Rightarrow>
                          (Response 200 (TaskBody task),
                           \<lparr>tasks = ts', cache = cache_del (cache s) (cacheKey uid)\<rparr>)))))"

text \<open>\<^verbatim>\<open>DELETE /tasks/:id\<close>, lines 237 to 251.\<close>

definition deleteTask :: "string \<Rightarrow> string \<Rightarrow> db \<Rightarrow> tstate \<Rightarrow> response \<times> tstate" where
  "deleteTask uid tid d s =
     (case d of
        Throws m \<Rightarrow> (internal_error, s)
      | Returns \<Rightarrow>
          (case Task_findOneAndDelete tid uid (tasks s) of
             (None, ts') \<Rightarrow> (Response 404 (ErrorBody ''Task not found''), s)
           | (Some task, ts') \<Rightarrow>
               (Response 200 (MessageBody ''Task deleted''),
                \<lparr>tasks = ts', cache = cache_del (cache s) (cacheKey uid)\<rparr>)))"







section \<open>Signup and login\<close>

text \<open>
  \<^verbatim>\<open>bcrypt.hash(password, 10)\<close> and \<^verbatim>\<open>bcrypt.compare\<close>, symbolic: the hash records
  the cost, the salt and the first 72 bytes of the password, and a password verifies
  against a hash when those bytes agree.
\<close>

definition bcrypt_hash :: "string \<Rightarrow> nat \<Rightarrow> string \<Rightarrow> pwhash" where
  "bcrypt_hash pw rounds salt = Bcrypt rounds salt (take 72 pw)"

fun bcrypt_compare :: "string \<Rightarrow> pwhash \<Rightarrow> bool" where
  "bcrypt_compare pw (Bcrypt rounds salt p) = (take 72 pw = p)"

text \<open>
  \<^verbatim>\<open>User.findOne({ username })\<close>.  Mongoose runs the setters of the schema on the
  values of a filter, so the name is trimmed before it is compared.
\<close>

definition User_findOne :: "string \<Rightarrow> user list \<Rightarrow> user option" where
  "User_findOne un us = find (\<lambda>u. username u = trim un) us"

text \<open>\<^verbatim>\<open>POST /signup\<close>, lines 105 to 136; the salt is bcrypt's, the id the driver's.\<close>

definition signup ::
  "string option \<Rightarrow> reqbody \<Rightarrow> string \<Rightarrow> string \<Rightarrow> db \<Rightarrow> time \<Rightarrow> user list \<Rightarrow> response \<times> user list"
where
  "signup env b newId salt d now us =
     (let errors = validateSignup b; b' = b\<lparr>b_username := trim_field (b_username b)\<rparr>
      in if errors \<noteq> [] then (Response 400 (ErrorsBody errors), us)
         else
           (case d of
              Throws m \<Rightarrow> (Response 500 (ErrorBody ''Failed to create user''), us)
            | Returns \<Rightarrow>
                (let un = toString (b_username b'); pw = toString (b_password b')
                 in case User_findOne un us of
                      Some existing \<Rightarrow> (Response 400 (ErrorBody ''Username already exists''), us)
                    | None \<Rightarrow>
                        (let hash = bcrypt_hash pw 10 salt;
                             u = \<lparr>u_id = newId, username = trim un, password = hash,
                                  u_createdAt = now\<rparr>
                         in if newId \<in> set (map u_id us)
                            then (Response 500 (ErrorBody ''Failed to create user''), us)
                            else (Response 201
                                    (SignupBody ''User created successfully''
                                       (issue env newId now) newId (username u) now),
                                  us @ [u])))))"

text \<open>\<^verbatim>\<open>POST /login\<close>, lines 138 to 158.\<close>

definition login :: "string option \<Rightarrow> reqbody \<Rightarrow> db \<Rightarrow> time \<Rightarrow> user list \<Rightarrow> response" where
  "login env b d now us =
     (let errors = validateLogin b
      in if errors \<noteq> [] then Response 400 (ErrorsBody errors)
         else
           (case d of
              Throws m \<Rightarrow> internal_error
            | Returns \<Rightarrow>
                (case User_findOne (toString (b_username b)) us of
                   None \<Rightarrow> Response 401 (ErrorBody ''Invalid credentials'')
                 | Some u \<Rightarrow>
                     if \<not> bcrypt_compare (toString (b_password b)) (password u)
                     then Response 401 (ErrorBody ''Invalid credentials'')
                     else Response 200 (TokenBody (issue env (u_id u) now)))))"

text \<open>The credential store is filled by signups only.\<close>

inductive registered :: "user list \<Rightarrow> bool" where
  reg_init: "registered []"
| reg_signup: "registered us \<Longrightarrow> registered (snd (signup env b newId salt d now us))"

text \<open>
  What every registered user satisfies: the name is not empty and the empty password
  does not verify against the stored hash.
\<close>

definition cred_ok :: "user \<Rightarrow> bool" where
  "cred_ok u = (username u \<noteq> [] \<and> \<not> bcrypt_compare [] (password u))"

section \<open>Facts about strings\<close>

lemma strip_fix:
  "find (\<lambda>w. w \<noteq> [] \<and> startsWith s w) seqs = None \<Longrightarrow> strip seqs s = s"
  by (subst strip.simps) simp

lemma strip_Nil: "strip seqs [] = []"
proof -
  have "find (\<lambda>w. w \<noteq> [] \<and> startsWith [] w) seqs = None"
    by (auto simp: find_None_iff startsWith_def)
  then show ?thesis by (rule strip_fix)
qed

lemma strip_clean:
  "find (\<lambda>w. w \<noteq> [] \<and> startsWith (strip seqs s) w) seqs = None"
proof (induction seqs s rule: strip.induct)
  case (1 seqs s)
  show ?case
  proof (cases "find (\<lambda>w. w \<noteq> [] \<and> startsWith s w) seqs")
    case None
    then show ?thesis by (simp add: strip_fix)
  next
    case (Some w)
    then have "strip seqs s = strip seqs (drop (length w) s)"
      by (subst strip.simps) simp
    with "1.IH" [OF Some] show ?thesis by simp
  qed
qed

lemma strip_idem: "strip seqs (strip seqs s) = strip seqs s"
  using strip_clean by (rule strip_fix)

lemma strip_suffix: "\<exists>p. s = p @ strip seqs s"
proof (induction seqs s rule: strip.induct)
  case (1 seqs s)
  show ?case
  proof (cases "find (\<lambda>w. w \<noteq> [] \<and> startsWith s w) seqs")
    case None
    then show ?thesis by (simp add: strip_fix)
  next
    case (Some w)
    then have e: "strip seqs s = strip seqs (drop (length w) s)"
      by (subst strip.simps) simp
    from "1.IH" [OF Some] obtain p where "drop (length w) s = p @ strip seqs (drop (length w) s)"
      by blast
    then have "s = (take (length w) s @ p) @ strip seqs s"
      using e by (metis append.assoc append_take_drop_id)
    then show ?thesis by blast
  qed
qed

lemma length_strip_le: "length (strip seqs s) \<le> length s"
proof -
  obtain p where "s = p @ strip seqs s" using strip_suffix by blast
  then have "length s = length p + length (strip seqs s)" by (metis length_append)
  then show ?thesis by simp
qed

lemma startsWith_prefix: "w \<noteq> [] \<Longrightarrow> startsWith x w \<Longrightarrow> startsWith (x @ y) w"
  by (auto simp: startsWith_def min_def dest: arg_cong [where f = length] split: if_splits)

lemma trim_Nil: "trim [] = []"
  by (simp add: trim_def strip_Nil)

lemma length_trim_le: "length (trim s) \<le> length s"
proof -
  have "length (trim s) \<le> length (strip whitespace s)"
    unfolding trim_def using length_strip_le [of "map rev whitespace" "rev (strip whitespace s)"]
    by simp
  also have "\<dots> \<le> length s" by (rule length_strip_le)
  finally show ?thesis .
qed

lemma trim_idem: "trim (trim s) = trim s"
proof -
  define a where "a = strip whitespace s"
  define x where "x = trim s"
  have rx: "rev x = strip (map rev whitespace) (rev a)"
    by (simp add: x_def a_def trim_def)
  obtain p where "rev a = p @ rev x" using strip_suffix [of "rev a" "map rev whitespace"] rx
    by metis
  then have a: "a = x @ rev p" by (metis rev_append rev_rev_ident)
  have clean: "find (\<lambda>w. w \<noteq> [] \<and> startsWith a w) whitespace = None"
    unfolding a_def by (rule strip_clean)
  have "find (\<lambda>w. w \<noteq> [] \<and> startsWith x w) whitespace = None"
  proof (rule ccontr)
    assume "find (\<lambda>w. w \<noteq> [] \<and> startsWith x w) whitespace \<noteq> None"
    then obtain w where "w \<in> set whitespace" "w \<noteq> []" "startsWith x w"
      by (auto simp: find_None_iff)
    then have "w \<in> set whitespace \<and> w \<noteq> [] \<and> startsWith a w"
      using startsWith_prefix a by auto
    with clean show False by (auto simp: find_None_iff)
  qed
  then have 1: "strip whitespace x = x" by (rule strip_fix)
  have 2: "strip (map rev whitespace) (rev x) = rev x"
    unfolding rx by (rule strip_idem)
  have "trim x = x" unfolding trim_def 1 2 by simp
  then show ?thesis by (simp add: x_def)
qed

lemma vlen_le_length: "vlen s \<le> length s"
proof -
  have "length (filter (\<lambda>c. \<not> continuation c) s) \<le> length s" by (rule length_filter_le)
  then show ?thesis unfolding vlen_def by arith
qed

lemma vlen_Nil: "vlen [] = 0"
  by (simp add: vlen_def)

section \<open>The identity middleware is a gate\<close>

lemma replace_first_startsWith:
  "startsWith s p \<Longrightarrow> replace_first p [] s = drop (length p) s"
  by (cases s) (simp_all add: startsWith_def)

lemma replace_first_prefix: "replace_first p [] (p @ t) = t"
  using replace_first_startsWith [of "p @ t" p] by (simp add: startsWith_def)

lemma startsWith_append: "startsWith (p @ t) p"
  by (simp add: startsWith_def)

lemma startsWith_split: "startsWith r p \<Longrightarrow> r = p @ drop (length p) r"
  unfolding startsWith_def by (metis append_take_drop_id)

text \<open>
  C5.  For a protected request: when the Authorization header is absent or does not begin
  with the case-sensitive prefix \<^verbatim>\<open>Bearer \<close>, the answer is 401 with
  \<^verbatim>\<open>{error: "Access denied: missing token"}\<close> and the handler does not run (the answer
  and the state do not depend on it); when a non-empty token is extracted and its
  verification fails, the answer is 401 with \<^verbatim>\<open>{error: "Invalid or expired token"}\<close>;
  when verification succeeds, the subject id of the decoded payload is bound as the
  identity and the handler runs with it.
\<close>

theorem auth_gate:
  "(authorization req = None \<or> (\<exists>r. authorization req = Some r \<and> \<not> startsWith r ''Bearer '')
      \<longrightarrow> auth verify secret now req =
            Rejected (Response 401 (ErrorBody ''Access denied: missing token''))
          \<and> protected verify secret now req handler s =
            (Response 401 (ErrorBody ''Access denied: missing token''), s))
   \<and> (authorization req = Some (''Bearer '' @ tok) \<and> tok \<noteq> [] \<and> verify tok secret now = Inl e
      \<longrightarrow> auth verify secret now req =
            Rejected (Response 401 (ErrorBody ''Invalid or expired token''))
          \<and> protected verify secret now req handler s =
            (Response 401 (ErrorBody ''Invalid or expired token''), s))
   \<and> (authorization req = Some (''Bearer '' @ tok) \<and> tok \<noteq> [] \<and> verify tok secret now = Inr decoded
      \<longrightarrow> auth verify secret now req = Next (p_id decoded)
          \<and> protected verify secret now req handler s = handler (p_id decoded) s)"
proof (intro conjI impI)
  assume "authorization req = None \<or> (\<exists>r. authorization req = Some r \<and> \<not> startsWith r ''Bearer '')"
  then show a: "auth verify secret now req =
            Rejected (Response 401 (ErrorBody ''Access denied: missing token''))"
    by (auto simp: auth_def)
  then show "protected verify secret now req handler s =
            (Response 401 (ErrorBody ''Access denied: missing token''), s)"
    by (simp add: protected_def)
next
  assume h: "authorization req = Some (''Bearer '' @ tok) \<and> tok \<noteq> [] \<and> verify tok secret now = Inl e"
  have "replace_first ''Bearer '' [] (''Bearer '' @ tok) = tok"
    by (rule replace_first_prefix)
  with h show a: "auth verify secret now req =
            Rejected (Response 401 (ErrorBody ''Invalid or expired token''))"
    using startsWith_append [of "''Bearer ''" tok] by (simp add: auth_def del: append.simps)
  then show "protected verify secret now req handler s =
            (Response 401 (ErrorBody ''Invalid or expired token''), s)"
    by (simp add: protected_def)
next
  assume h: "authorization req = Some (''Bearer '' @ tok) \<and> tok \<noteq> [] \<and> verify tok secret now = Inr decoded"
  have "replace_first ''Bearer '' [] (''Bearer '' @ tok) = tok"
    by (rule replace_first_prefix)
  with h show a: "auth verify secret now req = Next (p_id decoded)"
    using startsWith_append [of "''Bearer ''" tok] by (simp add: auth_def del: append.simps)
  then show "protected verify secret now req handler s = handler (p_id decoded) s"
    by (simp add: protected_def)
qed

theorem auth_gate_witness:
  "protected (\<lambda>t k n. if t = ''good'' then Inr \<lparr>p_id = ''u1'', iat = 0, exp = None\<rparr>
                   else Inl TokenExpiredError) ''k'' 0
      \<lparr>authorization = Some ''bearer good''\<rparr> (\<lambda>u s. (Response 200 (MessageBody u), Suc s)) (0::nat)
     = (Response 401 (ErrorBody ''Access denied: missing token''), 0)
   \<and> protected (\<lambda>t k n. if t = ''good'' then Inr \<lparr>p_id = ''u1'', iat = 0, exp = None\<rparr>
                   else Inl TokenExpiredError) ''k'' 0
      \<lparr>authorization = Some ''Bearer bad''\<rparr> (\<lambda>u s. (Response 200 (MessageBody u), Suc s)) (0::nat)
     = (Response 401 (ErrorBody ''Invalid or expired token''), 0)
   \<and> protected (\<lambda>t k n. if t = ''good'' then Inr \<lparr>p_id = ''u1'', iat = 0, exp = None\<rparr>
                   else Inl TokenExpiredError) ''k'' 0
      \<lparr>authorization = Some ''Bearer good''\<rparr> (\<lambda>u s. (Response 200 (MessageBody u), Suc s)) (0::nat)
     = (Response 200 (MessageBody ''u1''), 1)"
  using
    auth_gate [where req = "\<lparr>authorization = Some ''bearer good''\<rparr>" and secret = "''k''"
      and now = 0 and s = "0::nat" and handler = "(\<lambda>u s. (Response 200 (MessageBody u), Suc s))"
      and verify = "(\<lambda>t k n. if t = ''good'' then Inr \<lparr>p_id = ''u1'', iat = 0, exp = None\<rparr>
                   else Inl TokenExpiredError)"]
    auth_gate [where req = "\<lparr>authorization = Some ''Bearer bad''\<rparr>" and secret = "''k''"
      and now = 0 and tok = "''bad''" and e = TokenExpiredError
      and s = "0::nat" and handler = "(\<lambda>u s. (Response 200 (MessageBody u), Suc s))"
      and verify = "(\<lambda>t k n. if t = ''good'' then Inr \<lparr>p_id = ''u1'', iat = 0, exp = None\<rparr>
                   else Inl TokenExpiredError)"]
    auth_gate [where req = "\<lparr>authorization = Some ''Bearer good''\<rparr>" and secret = "''k''"
      and now = 0 and tok = "''good''" and decoded = "\<lparr>p_id = ''u1'', iat = 0, exp = None\<rparr>"
      and s = "0::nat" and handler = "(\<lambda>u s. (Response 200 (MessageBody u), Suc s))"
      and verify = "(\<lambda>t k n. if t = ''good'' then Inr \<lparr>p_id = ''u1'', iat = 0, exp = None\<rparr>
                   else Inl TokenExpiredError)"]
  by (simp add: startsWith_def)

text \<open>
  C9.  The header \<^verbatim>\<open>Bearer \<close> with nothing after it yields the empty string as
  token, which the middleware treats as absent: the answer is the missing-token 401, not
  the invalid-token one, whatever the verifier would say, and the handler does not run.
\<close>

theorem auth_empty_bearer:
  "auth verify secret now \<lparr>authorization = Some ''Bearer ''\<rparr> =
     Rejected (Response 401 (ErrorBody ''Access denied: missing token''))
   \<and> protected verify secret now \<lparr>authorization = Some ''Bearer ''\<rparr> handler s =
     (Response 401 (ErrorBody ''Access denied: missing token''), s)"
  by (simp add: auth_def protected_def startsWith_def)

section \<open>Tokens\<close>

text \<open>
  C4.  A token issued for a subject verifies, under the same secret, at every time
  before its embedded expiry, which is 3600 seconds after the second of issuance, and
  yields that subject; from the expiry on it fails as expired.  For every token,
  verification fails exactly when the token is malformed, its signature is not the one
  of its payload under the secret, or the clock has reached the embedded expiry, and
  otherwise returns the payload.
\<close>

theorem token_roundtrip:
  "(now' div 1000 < now div 1000 + 3600 \<longrightarrow>
      (\<exists>p. jwt_verify (issue env uid now) (JWT_SECRET env) now' = Inr p \<and> p_id p = uid
           \<and> exp p = Some (now div 1000 + 3600)))
   \<and> (now div 1000 + 3600 \<le> now' div 1000 \<longrightarrow>
      jwt_verify (issue env uid now) (JWT_SECRET env) now' = Inl TokenExpiredError)
   \<and> ((\<exists>e. jwt_verify tok secret t = Inl e) \<longleftrightarrow>
        (malformed tok \<or> \<not> signature_valid tok secret \<or> expired tok t))
   \<and> (\<not> malformed tok \<and> signature_valid tok secret \<and> \<not> expired tok t \<longrightarrow>
        (\<exists>p m. tok = Compact p m \<and> jwt_verify tok secret t = Inr p))"
proof (intro conjI impI)
  assume "now' div 1000 < now div 1000 + 3600"
  then show "\<exists>p. jwt_verify (issue env uid now) (JWT_SECRET env) now' = Inr p \<and> p_id p = uid
           \<and> exp p = Some (now div 1000 + 3600)"
    by (simp add: issue_def jwt_sign_def jwt_verify_def Let_def)
next
  assume "now div 1000 + 3600 \<le> now' div 1000"
  then show "jwt_verify (issue env uid now) (JWT_SECRET env) now' = Inl TokenExpiredError"
    by (simp add: issue_def jwt_sign_def jwt_verify_def Let_def)
next
  show "(\<exists>e. jwt_verify tok secret t = Inl e) \<longleftrightarrow>
        (malformed tok \<or> \<not> signature_valid tok secret \<or> expired tok t)"
    by (cases tok) (auto simp: jwt_verify_def split: option.splits)
next
  assume "\<not> malformed tok \<and> signature_valid tok secret \<and> \<not> expired tok t"
  then show "\<exists>p m. tok = Compact p m \<and> jwt_verify tok secret t = Inr p"
    by (cases tok) (auto simp: jwt_verify_def split: option.splits)
qed

theorem token_roundtrip_witness:
  "(3604999::nat) div 1000 < 5000 div 1000 + 3600
   \<and> jwt_verify (issue None ''u1'' 5000) (JWT_SECRET None) 3604999 =
       Inr \<lparr>p_id = ''u1'', iat = 5, exp = Some 3605\<rparr>
   \<and> jwt_verify (issue None ''u1'' 5000) (JWT_SECRET None) 3605000 = Inl TokenExpiredError
   \<and> jwt_verify (issue None ''u1'' 5000) ''other-key'' 6000 =
       Inl (JsonWebTokenError ''invalid signature'')
   \<and> \<not> signature_valid (issue None ''u1'' 5000) ''other-key''"
  using token_roundtrip [of 3604999 5000 None "''u1''" "issue None ''u1'' 5000" "''other-key''" 6000]
  by (simp add: issue_def jwt_sign_def jwt_verify_def JWT_SECRET_def Let_def)

section \<open>The list request that nothing overlaps\<close>

lemma listTasks_eq:
  "listTasks uid d now s =
     (case cache_get (cache s) (cacheKey uid) now of
        (Some l, c) \<Rightarrow> (Response 200 (TasksBody l), s\<lparr>cache := c\<rparr>)
      | (None, c) \<Rightarrow>
          (case d of
             Throws m \<Rightarrow> (internal_error, s\<lparr>cache := c\<rparr>)
           | Returns \<Rightarrow>
               (Response 200 (TasksBody (Task_find uid (tasks s))),
                s\<lparr>cache := cache_set c (cacheKey uid) (Task_find uid (tasks s)) now\<rparr>)))"
  by (simp add: listTasks_def listTasks_begin_def listTasks_end_def
      split: prod.splits option.splits db.splits)

section \<open>The cache's time to live\<close>

text \<open>
  At exactly 600 seconds after its insertion an entry is still returned: it expires
  only once its stamp is less than the clock.
\<close>

theorem cache_served_at_ttl_counterexample:
  "fst (cache_get (cache_set (\<lambda>k. None) (cacheKey ''u1'') [] 1000) (cacheKey ''u1'')
          (1000 + 600 * 1000)) = Some []"
  by (simp add: cache_get_def cache_set_def stdTTL_def)

text \<open>
  C8, amended.  An entry put at \<open>t0\<close> is never returned more than 600 seconds (600000 ms)
  after \<open>t0\<close>: such a read returns nothing and removes the entry; up to and including
  that instant it is returned.  A list request that finds its owner's entry past its
  life behaves as a miss: it answers with a fresh fetch from the store and caches that.
\<close>

theorem cache_ttl_bound:
  "(t0 + 600 * 1000 < now \<longrightarrow>
      cache_get (cache_set c key val t0) key now = (None, (cache_set c key val t0)(key := None)))
   \<and> (now \<le> t0 + 600 * 1000 \<longrightarrow>
      cache_get (cache_set c key val t0) key now = (Some val, cache_set c key val t0))
   \<and> (cache s (cacheKey uid) = Some e \<and> expires e \<noteq> 0 \<and> expires e < now \<longrightarrow>
      listTasks uid Returns now s =
        (Response 200 (TasksBody (Task_find uid (tasks s))),
         s\<lparr>cache := cache_set (cache s) (cacheKey uid) (Task_find uid (tasks s)) now\<rparr>))"
proof (intro conjI impI)
  assume "t0 + 600 * 1000 < now"
  then show "cache_get (cache_set c key val t0) key now =
      (None, (cache_set c key val t0)(key := None))"
    by (simp add: cache_get_def cache_set_def stdTTL_def)
next
  assume "now \<le> t0 + 600 * 1000"
  then show "cache_get (cache_set c key val t0) key now = (Some val, cache_set c key val t0)"
    by (simp add: cache_get_def cache_set_def stdTTL_def)
next
  assume "cache s (cacheKey uid) = Some e \<and> expires e \<noteq> 0 \<and> expires e < now"
  then show "listTasks uid Returns now s =
        (Response 200 (TasksBody (Task_find uid (tasks s))),
         s\<lparr>cache := cache_set (cache s) (cacheKey uid) (Task_find uid (tasks s)) now\<rparr>)"
    by (simp add: listTasks_eq cache_get_def cache_set_def Let_def)
qed

theorem cache_ttl_bound_witness:
  "(1000::nat) + 600 * 1000 < 601001
   \<and> fst (cache_get (cache_set (\<lambda>k. None) (cacheKey ''u1'') [] 1000) (cacheKey ''u1'') 601001)
       = None
   \<and> fst (cache_get (cache_set (\<lambda>k. None) (cacheKey ''u1'') [] 1000) (cacheKey ''u1'') 601000)
       = Some []
   \<and> fst (listTasks ''u1'' Returns 601001
        \<lparr>tasks = [], cache = cache_set (\<lambda>k. None) (cacheKey ''u1'') [] 1000\<rparr>)
       = Response 200 (TasksBody [])"
  using
    cache_ttl_bound [where ?t0.0 = 1000 and now = 601001 and c = "\<lambda>k. None"
      and key = "cacheKey ''u1''" and val = "[]" and uid = "''u1''"
      and e = "\<lparr>cached = [], expires = 601000\<rparr>"
      and s = "\<lparr>tasks = [], cache = cache_set (\<lambda>k. None) (cacheKey ''u1'') [] 1000\<rparr>"]
    cache_ttl_bound [where ?t0.0 = 1000 and now = 601000 and c = "\<lambda>k. None"
      and key = "cacheKey ''u1''" and val = "[]"]
  by (simp add: cache_set_def stdTTL_def Task_find_def)

section \<open>Facts about the validators\<close>










lemma standard_single: "(\<forall>xs. v \<noteq> Some (JArr xs)) \<Longrightarrow> standard f P v = check f (P (toString v))"
  by (cases v rule: items.cases) (simp_all add: standard_def)



lemma isString_iff: "isString v \<longleftrightarrow> (\<exists>s. v = Some (JStr s))"
  by (cases v rule: isString.cases) auto

lemma chain_title_ok:
  "chain_title v = [] \<longleftrightarrow> (\<exists>s. v = Some (JStr s) \<and> 3 \<le> vlen (trim s))"
proof (cases "isString v")
  case False
  then show ?thesis by (auto simp: chain_title_def check_def isString_iff)
next
  case True
  then obtain s where v: "v = Some (JStr s)" by (auto simp: isString_iff)
  have "3 \<le> vlen (trim s) \<Longrightarrow> s \<noteq> []"
    by (auto simp: trim_Nil vlen_Nil)
  then show ?thesis
    by (auto simp: v chain_title_def check_def standard_def toString_def notEmpty_def isLength_def)
qed









section \<open>Validation of task creation\<close>






section \<open>What an update can change\<close>

text \<open>
  C2.  The handler passes the whole request body to \<^verbatim>\<open>findOneAndUpdate\<close>; the
  validators look at \<^verbatim>\<open>title\<close> and \<^verbatim>\<open>complete\<close> only.  A body that carries
  \<^verbatim>\<open>userId\<close> moves the task to another owner: here the owner's update of the task
  hands it to a second user, although the claim has the owning user id unchanged by every
  update.  (The create handler picks \<^verbatim>\<open>title\<close> and \<^verbatim>\<open>complete\<close> out of the
  body and takes the owner from the token.)
\<close>

theorem updateTask_reassigns_owner:
  "updateTask ''64b0c0ffee0000000000000a'' ''64b0c0ffee00000000000001''
      \<lparr>b_title = None, b_complete = None, b_userId = Some (JStr ''64b0c0ffee0000000000000b''),
       b_username = None, b_password = None\<rparr> Returns 9
      \<lparr>tasks = [\<lparr>t_id = ''64b0c0ffee00000000000001'', title = ''abc'', complete = False,
                 userId = Some ''64b0c0ffee0000000000000a'', createdAt = 5, updatedAt = 5\<rparr>],
       cache = (\<lambda>k. None)\<rparr>
   = (Response 200 (TaskBody \<lparr>t_id = ''64b0c0ffee00000000000001'', title = ''abc'', complete = False,
        userId = Some ''64b0c0ffee0000000000000b'', createdAt = 5, updatedAt = 9\<rparr>),
      \<lparr>tasks = [\<lparr>t_id = ''64b0c0ffee00000000000001'', title = ''abc'', complete = False,
                 userId = Some ''64b0c0ffee0000000000000b'', createdAt = 5, updatedAt = 9\<rparr>],
       cache = (\<lambda>k. None)\<rparr>)"
  by (simp add: updateTask_def validateTaskUpdate_def chain_complete_def sanitize_title_def
      cast_update_def apply_update_def cache_del_def isObjectId_def Let_def)

section \<open>The store operations and the invariants of the service\<close>



lemma fou_None:
  "fst (Task_findOneAndUpdate tid uid u now ts) = None \<longleftrightarrow>
   (\<forall>t \<in> set ts. \<not> (t_id t = tid \<and> userId t = Some uid))"
  by (induction ts) (auto split: prod.splits)




lemma fod_None:
  "fst (Task_findOneAndDelete tid uid ts) = None \<longleftrightarrow>
   (\<forall>t \<in> set ts. \<not> (t_id t = tid \<and> userId t = Some uid))"
  by (induction ts) (auto split: prod.splits)





lemma Task_findOne_None:
  "Task_findOne tid uid ts = None \<longleftrightarrow> (\<forall>t \<in> set ts. \<not> (t_id t = tid \<and> userId t = Some uid))"
  by (auto simp: Task_findOne_def find_None_iff)























section \<open>Ownership isolation\<close>





section \<open>Cache coherence\<close>












text \<open>
  C10.  A create, update or delete that does not succeed leaves the whole state, and so
  the owner's cache entry, as it was; a validation error, a store call that throws and
  a missing task are such failures.  The cache is touched only on the success path.
\<close>

theorem failed_write_keeps_cache:
  "(status (fst (createTask uid b newId d now s)) \<noteq> 201 \<longrightarrow>
      snd (createTask uid b newId d now s) = s)
   \<and> (status (fst (updateTask uid tid b d now s)) \<noteq> 200 \<longrightarrow>
      snd (updateTask uid tid b d now s) = s)
   \<and> (status (fst (deleteTask uid tid d s)) \<noteq> 200 \<longrightarrow> snd (deleteTask uid tid d s) = s)
   \<and> (validateTaskCreate b \<noteq> [] \<longrightarrow> status (fst (createTask uid b newId d now s)) = 400)
   \<and> (validateTaskUpdate b \<noteq> [] \<longrightarrow> status (fst (updateTask uid tid b d now s)) = 400)
   \<and> status (fst (createTask uid b newId (Throws m) now s)) \<noteq> 201
   \<and> status (fst (updateTask uid tid b (Throws m) now s)) \<noteq> 200
   \<and> status (fst (deleteTask uid tid (Throws m) s)) = 500
   \<and> (Task_findOne tid uid (tasks s) = None \<longrightarrow>
        status (fst (updateTask uid tid b d now s)) \<noteq> 200
        \<and> status (fst (deleteTask uid tid d s)) \<noteq> 200
        \<and> status (fst (deleteTask uid tid Returns s)) = 404)"
proof (intro conjI impI)
  show "status (fst (createTask uid b newId d now s)) \<noteq> 201 \<Longrightarrow>
      snd (createTask uid b newId d now s) = s"
    by (auto simp: createTask_def Let_def internal_error_def split: option.splits db.splits)
  show "status (fst (updateTask uid tid b d now s)) \<noteq> 200 \<Longrightarrow>
      snd (updateTask uid tid b d now s) = s"
    by (auto simp: updateTask_def Let_def internal_error_def
        split: option.splits db.splits prod.splits)
  show "status (fst (deleteTask uid tid d s)) \<noteq> 200 \<Longrightarrow> snd (deleteTask uid tid d s) = s"
    by (auto simp: deleteTask_def internal_error_def split: option.splits db.splits prod.splits)
  show "validateTaskCreate b \<noteq> [] \<Longrightarrow> status (fst (createTask uid b newId d now s)) = 400"
    by (simp add: createTask_def Let_def)
  show "validateTaskUpdate b \<noteq> [] \<Longrightarrow> status (fst (updateTask uid tid b d now s)) = 400"
    by (simp add: updateTask_def Let_def)
  show "status (fst (createTask uid b newId (Throws m) now s)) \<noteq> 201"
    by (simp add: createTask_def Let_def internal_error_def split: option.splits)
  show "status (fst (updateTask uid tid b (Throws m) now s)) \<noteq> 200"
    by (simp add: updateTask_def Let_def internal_error_def)
  show "status (fst (deleteTask uid tid (Throws m) s)) = 500"
    by (simp add: deleteTask_def internal_error_def)
next
  assume n: "Task_findOne tid uid (tasks s) = None"
  then have nm: "\<forall>t \<in> set (tasks s). \<not> (t_id t = tid \<and> userId t = Some uid)"
    by (simp only: Task_findOne_None)
  have u: "\<And>u r ts'. Task_findOneAndUpdate tid uid u now (tasks s) = (r, ts') \<Longrightarrow> r = None"
    using nm fou_None [of tid uid _ now "tasks s"] by (metis fst_conv)
  have dl: "\<And>r ts'. Task_findOneAndDelete tid uid (tasks s) = (r, ts') \<Longrightarrow> r = None"
    using nm fod_None [of tid uid "tasks s"] by (metis fst_conv)
  show "status (fst (updateTask uid tid b d now s)) \<noteq> 200"
    using u by (auto simp: updateTask_def Let_def internal_error_def
        split: option.splits db.splits prod.splits)
  show "status (fst (deleteTask uid tid d s)) \<noteq> 200"
    using dl by (auto simp: deleteTask_def internal_error_def split: db.splits prod.splits)
  show "status (fst (deleteTask uid tid Returns s)) = 404"
    using dl by (auto simp: deleteTask_def split: prod.splits option.splits)
qed

theorem failed_write_keeps_cache_witness:
  "status (fst (createTask ''64b0c0ffee0000000000000a''
       \<lparr>b_title = Some (JStr ''ab''), b_complete = None, b_userId = None,
        b_username = None, b_password = None\<rparr> ''64b0c0ffee00000000000001'' Returns 5
       (snd (listTasks ''64b0c0ffee0000000000000a'' Returns 0 init)))) = 400
   \<and> cache (snd (createTask ''64b0c0ffee0000000000000a''
       \<lparr>b_title = Some (JStr ''ab''), b_complete = None, b_userId = None,
        b_username = None, b_password = None\<rparr> ''64b0c0ffee00000000000001'' Returns 5
       (snd (listTasks ''64b0c0ffee0000000000000a'' Returns 0 init)))) (cacheKey ''64b0c0ffee0000000000000a'')
      = Some \<lparr>cached = [], expires = 600000\<rparr>
   \<and> status (fst (deleteTask ''64b0c0ffee0000000000000a'' ''64b0c0ffee00000000000009'' Returns (snd (listTasks ''64b0c0ffee0000000000000a'' Returns 0 init)))) = 404
   \<and> cache (snd (deleteTask ''64b0c0ffee0000000000000a'' ''64b0c0ffee00000000000009'' Returns (snd (listTasks ''64b0c0ffee0000000000000a'' Returns 0 init))))
        (cacheKey ''64b0c0ffee0000000000000a'')
      = Some \<lparr>cached = [], expires = 600000\<rparr>"
proof -
  let ?s = "snd (listTasks ''64b0c0ffee0000000000000a'' Returns 0 init)"
  let ?b = "\<lparr>b_title = Some (JStr ''ab''), b_complete = None, b_userId = None,
        b_username = None, b_password = None\<rparr>"
  have c: "cache ?s (cacheKey ''64b0c0ffee0000000000000a'') = Some \<lparr>cached = [], expires = 600000\<rparr>"
    and ts: "tasks ?s = []"
    by (simp_all add: listTasks_eq cache_get_def cache_set_def init_def Task_find_def stdTTL_def)
  have "chain_title (Some (JStr ''ab'')) \<noteq> []"
    using vlen_le_length [of "trim ''ab''"] length_trim_le [of "''ab''"]
    by (simp add: chain_title_ok)
  then have v: "validateTaskCreate ?b \<noteq> []"
    by (simp add: validateTaskCreate_def)
  have f: "Task_findOne ''64b0c0ffee00000000000009'' ''64b0c0ffee0000000000000a'' (tasks ?s) = None"
    by (simp add: ts Task_findOne_def)
  from failed_write_keeps_cache [where uid = "''64b0c0ffee0000000000000a''" and newId = "''64b0c0ffee00000000000001''" and d = Returns
      and now = 5 and s = ?s and b = ?b and tid = "''64b0c0ffee00000000000009''"] v f c
  show ?thesis by simp
qed


section \<open>Login\<close>

lemma validateLogin_Nil:
  "validateLogin b = [] \<longleftrightarrow>
   (\<exists>un pw. b_username b = Some (JStr un) \<and> un \<noteq> [] \<and> b_password b = Some (JStr pw) \<and> pw \<noteq> [])"
  by (auto simp: validateLogin_def check_def isString_iff standard_def toString_def notEmpty_def)

lemma standard_JStr: "standard f valid (Some (JStr s)) = check f (valid s)"
  by (simp add: standard_def toString_def)

lemma check_Nil: "check f ok = [] \<longleftrightarrow> ok"
  by (simp add: check_def)

lemma validateSignup_Nil:
  assumes "validateSignup b = []"
  shows "\<exists>un pw. b_username b = Some (JStr un) \<and> 3 \<le> vlen (trim un) \<and>
           b_password b = Some (JStr pw) \<and> 6 \<le> vlen pw"
proof -
  from assms have 1: "isString (b_username b)" and 3: "isString (b_password b)"
    and 2: "standard ''username'' (isLength 3 (Some 30)) (trim_field (b_username b)) = []"
    and 4: "standard ''password'' (isLength 6 None) (b_password b) = []"
    by (simp_all add: validateSignup_def check_Nil)
  from 1 obtain un where un: "b_username b = Some (JStr un)" by (auto simp: isString_iff)
  from 3 obtain pw where pw: "b_password b = Some (JStr pw)" by (auto simp: isString_iff)
  from 2 un have "3 \<le> vlen (trim un)" by (simp add: standard_JStr check_Nil isLength_def)
  moreover from 4 pw have "6 \<le> vlen pw" by (simp add: standard_JStr check_Nil isLength_def)
  ultimately show ?thesis using un pw by blast
qed

lemma User_findOne_Some:
  "User_findOne un us = Some u \<Longrightarrow> u \<in> set us \<and> username u = trim un"
  unfolding User_findOne_def by (induction us) (auto split: if_splits)

lemma User_findOne_None:
  "User_findOne un us = None \<longleftrightarrow> (\<forall>u \<in> set us. username u \<noteq> trim un)"
  by (auto simp: User_findOne_def find_None_iff)

lemma User_findOne_unique:
  "distinct (map username us) \<Longrightarrow> u \<in> set us \<Longrightarrow> username u = trim un \<Longrightarrow>
   User_findOne un us = Some u"
  unfolding User_findOne_def by (induction us) (auto simp: image_iff)

lemma signup_users:
  assumes a: "\<forall>u \<in> set us. cred_ok u" and d: "distinct (map username us)"
  shows "(\<forall>u \<in> set (snd (signup env b newId salt db now us)). cred_ok u)
         \<and> distinct (map username (snd (signup env b newId salt db now us)))"
proof (cases "snd (signup env b newId salt db now us) = us")
  case True
  with a d show ?thesis by simp
next
  case False
  then have v: "validateSignup b = []" by (rule contrapos_np) (simp add: signup_def Let_def)
  from validateSignup_Nil [OF v] obtain un pw where
    un: "b_username b = Some (JStr un)" and l: "3 \<le> vlen (trim un)"
    and pw: "b_password b = Some (JStr pw)" and p: "6 \<le> vlen pw" by blast
  let ?u = "\<lparr>u_id = newId, username = trim un, password = bcrypt_hash pw 10 salt,
             u_createdAt = now\<rparr>"
  from False v un pw have s: "snd (signup env b newId salt db now us) = us @ [?u]"
    and f: "User_findOne (trim un) us = None"
    by (auto simp: signup_def Let_def toString_def trim_idem split: db.splits option.splits if_splits)
  from l have "trim un \<noteq> []" by (auto simp: vlen_Nil)
  moreover from p have "pw \<noteq> []" by (auto simp: vlen_Nil)
  then have "take 72 pw \<noteq> []" by simp
  ultimately have c: "cred_ok ?u" by (simp add: cred_ok_def bcrypt_hash_def)
  from f have "trim un \<notin> username ` set us"
    by (auto simp: User_findOne_None trim_idem)
  with a d c show ?thesis unfolding s by auto
qed

lemma registered_users:
  "registered us \<Longrightarrow> (\<forall>u \<in> set us. cred_ok u) \<and> distinct (map username us)"
proof (induction rule: registered.induct)
  case reg_init
  show ?case by simp
next
  case (reg_signup us env b newId salt d now)
  then show ?case using signup_users by blast
qed

text \<open>
  A login under the name of a registered user with blanks around it succeeds, although no
  user with that username exists: the name is trimmed before it is looked up.
\<close>

theorem login_trims_name_counterexample:
  "'' alice '' \<notin> username ` set (snd (signup None
       \<lparr>b_title = None, b_complete = None, b_userId = None,
        b_username = Some (JStr ''alice''), b_password = Some (JStr ''pw123456'')\<rparr>
       ''64b0c0ffee0000000000000a'' ''salt'' Returns 0 []))
   \<and> login None \<lparr>b_title = None, b_complete = None, b_userId = None,
        b_username = Some (JStr '' alice ''), b_password = Some (JStr ''pw123456'')\<rparr> Returns 9
       (snd (signup None
       \<lparr>b_title = None, b_complete = None, b_userId = None,
        b_username = Some (JStr ''alice''), b_password = Some (JStr ''pw123456'')\<rparr>
       ''64b0c0ffee0000000000000a'' ''salt'' Returns 0 []))
     = Response 200 (TokenBody (issue None ''64b0c0ffee0000000000000a'' 9))"
proof -
  have t: "trim ''alice'' = ''alice''" "trim '' alice '' = ''alice''"
    and l: "vlen ''alice'' = 5" "vlen ''pw123456'' = 8" by code_simp+
  have us: "snd (signup None
       \<lparr>b_title = None, b_complete = None, b_userId = None,
        b_username = Some (JStr ''alice''), b_password = Some (JStr ''pw123456'')\<rparr>
       ''64b0c0ffee0000000000000a'' ''salt'' Returns 0 [])
     = [\<lparr>u_id = ''64b0c0ffee0000000000000a'', username = ''alice'', password = Bcrypt 10 ''salt'' ''pw123456'',
        u_createdAt = 0\<rparr>]"
    using t l
    by (simp add: signup_def validateSignup_def check_def standard_def toString_def isLength_def
        notEmpty_def User_findOne_def bcrypt_hash_def Let_def)
  show ?thesis
    unfolding us using t
    by (simp add: login_def validateLogin_def check_def standard_def toString_def notEmpty_def
        User_findOne_def Let_def)
qed

text \<open>
  C6, amended.  With the credential store filled by signups and its calls returning: a
  login succeeds exactly when the body carries a username and a password, both strings,
  a user exists whose name is the username with the white space around it removed, and
  the stored hash of that user verifies against the password; a success returns a token
  issued for that user.  An unknown name and a wrong password get the same answer, 401
  with \<^verbatim>\<open>{error: "Invalid credentials"}\<close>; and any two failing logins with the same
  body get the same answer whatever the store holds.
\<close>

theorem login_noninterference:
  assumes "registered us"
  shows
    "(status (login env b Returns now us) = 200 \<longleftrightarrow>
        (\<exists>un pw u. b_username b = Some (JStr un) \<and> b_password b = Some (JStr pw)
           \<and> u \<in> set us \<and> username u = trim un \<and> bcrypt_compare pw (password u)))
     \<and> (b_username b = Some (JStr un) \<and> status (login env b Returns now us) = 200 \<longrightarrow>
        (\<exists>u. u \<in> set us \<and> username u = trim un
           \<and> login env b Returns now us = Response 200 (TokenBody (issue env (u_id u) now))))
     \<and> (validateLogin b = [] \<and> b_username b = Some (JStr un)
          \<and> (\<forall>u \<in> set us. username u \<noteq> trim un) \<longrightarrow>
        login env b Returns now us = Response 401 (ErrorBody ''Invalid credentials''))
     \<and> (validateLogin b = [] \<and> b_username b = Some (JStr un) \<and> b_password b = Some (JStr pw)
          \<and> u \<in> set us \<and> username u = trim un \<and> \<not> bcrypt_compare pw (password u) \<longrightarrow>
        login env b Returns now us = Response 401 (ErrorBody ''Invalid credentials''))
     \<and> (status (login env b Returns now us) \<noteq> 200 \<and> status (login env b Returns now' us') \<noteq> 200 \<longrightarrow>
        login env b Returns now us = login env b Returns now' us')"
proof (intro conjI impI)
  from assms have ok: "\<forall>u \<in> set us. cred_ok u" and dist: "distinct (map username us)"
    using registered_users by blast+
  show "status (login env b Returns now us) = 200 \<longleftrightarrow>
        (\<exists>un pw u. b_username b = Some (JStr un) \<and> b_password b = Some (JStr pw)
           \<and> u \<in> set us \<and> username u = trim un \<and> bcrypt_compare pw (password u))"
  proof (cases "validateLogin b = []")
    case True
    then obtain un pw where un: "b_username b = Some (JStr un)" and pw: "b_password b = Some (JStr pw)"
      unfolding validateLogin_Nil by blast
    show ?thesis
    proof
      assume "status (login env b Returns now us) = 200"
      with True un pw obtain u where "User_findOne un us = Some u" "bcrypt_compare pw (password u)"
        by (auto simp: login_def Let_def toString_def split: option.splits if_splits)
      with User_findOne_Some [of un us u] un pw
      show "\<exists>un pw u. b_username b = Some (JStr un) \<and> b_password b = Some (JStr pw)
           \<and> u \<in> set us \<and> username u = trim un \<and> bcrypt_compare pw (password u)"
        by blast
    next
      assume "\<exists>un pw u. b_username b = Some (JStr un) \<and> b_password b = Some (JStr pw)
           \<and> u \<in> set us \<and> username u = trim un \<and> bcrypt_compare pw (password u)"
      with un pw obtain u where u: "u \<in> set us" "username u = trim un" "bcrypt_compare pw (password u)"
        by auto
      from User_findOne_unique [OF dist u(1) u(2)] have "User_findOne un us = Some u" .
      with True un pw u(3) show "status (login env b Returns now us) = 200"
        by (simp add: login_def Let_def toString_def)
    qed
  next
    case False
    have "\<not> (\<exists>un pw u. b_username b = Some (JStr un) \<and> b_password b = Some (JStr pw)
           \<and> u \<in> set us \<and> username u = trim un \<and> bcrypt_compare pw (password u))"
    proof
      assume "\<exists>un pw u. b_username b = Some (JStr un) \<and> b_password b = Some (JStr pw)
           \<and> u \<in> set us \<and> username u = trim un \<and> bcrypt_compare pw (password u)"
      then obtain un pw u where un: "b_username b = Some (JStr un)"
        and pw: "b_password b = Some (JStr pw)" and m: "u \<in> set us"
        and n: "username u = trim un" and c: "bcrypt_compare pw (password u)" by blast
      from m ok have u: "cred_ok u" by blast
      from False un pw have "un = [] \<or> pw = []" unfolding validateLogin_Nil by auto
      then show False
      proof
        assume "un = []"
        with n u show False by (simp add: cred_ok_def trim_Nil)
      next
        assume "pw = []"
        with c u show False by (simp add: cred_ok_def)
      qed
    qed
    with False show ?thesis by (simp add: login_def Let_def)
  qed
next
  assume h: "b_username b = Some (JStr un) \<and> status (login env b Returns now us) = 200"
  then obtain u where "User_findOne un us = Some u"
    and "login env b Returns now us = Response 200 (TokenBody (issue env (u_id u) now))"
    by (auto simp: login_def Let_def toString_def split: option.splits if_splits)
  with User_findOne_Some [of un us u]
  show "\<exists>u. u \<in> set us \<and> username u = trim un
           \<and> login env b Returns now us = Response 200 (TokenBody (issue env (u_id u) now))"
    by blast
next
  assume "validateLogin b = [] \<and> b_username b = Some (JStr un)
          \<and> (\<forall>u \<in> set us. username u \<noteq> trim un)"
  then show "login env b Returns now us = Response 401 (ErrorBody ''Invalid credentials'')"
    by (simp add: login_def Let_def toString_def User_findOne_None [symmetric])
next
  from assms have dist: "distinct (map username us)" using registered_users by blast
  assume h: "validateLogin b = [] \<and> b_username b = Some (JStr un) \<and> b_password b = Some (JStr pw)
          \<and> u \<in> set us \<and> username u = trim un \<and> \<not> bcrypt_compare pw (password u)"
  then have "User_findOne un us = Some u" using User_findOne_unique [OF dist] by blast
  with h show "login env b Returns now us = Response 401 (ErrorBody ''Invalid credentials'')"
    by (simp add: login_def Let_def toString_def)
next
  assume "status (login env b Returns now us) \<noteq> 200 \<and> status (login env b Returns now' us') \<noteq> 200"
  then show "login env b Returns now us = login env b Returns now' us'"
    by (auto simp: login_def Let_def split: option.splits if_splits)
qed

theorem login_noninterference_witness:
  "registered (snd (signup None
       \<lparr>b_title = None, b_complete = None, b_userId = None,
        b_username = Some (JStr ''alice''), b_password = Some (JStr ''pw123456'')\<rparr>
       ''64b0c0ffee0000000000000a'' ''salt'' Returns 0 []))
   \<and> login None \<lparr>b_title = None, b_complete = None, b_userId = None,
        b_username = Some (JStr ''alice''), b_password = Some (JStr ''pw123456'')\<rparr> Returns 9
       (snd (signup None
       \<lparr>b_title = None, b_complete = None, b_userId = None,
        b_username = Some (JStr ''alice''), b_password = Some (JStr ''pw123456'')\<rparr>
       ''64b0c0ffee0000000000000a'' ''salt'' Returns 0 []))
     = Response 200 (TokenBody (issue None ''64b0c0ffee0000000000000a'' 9))
   \<and> login None \<lparr>b_title = None, b_complete = None, b_userId = None,
        b_username = Some (JStr ''alice''), b_password = Some (JStr ''wrong'')\<rparr> Returns 9
       (snd (signup None
       \<lparr>b_title = None, b_complete = None, b_userId = None,
        b_username = Some (JStr ''alice''), b_password = Some (JStr ''pw123456'')\<rparr>
       ''64b0c0ffee0000000000000a'' ''salt'' Returns 0 []))
     = Response 401 (ErrorBody ''Invalid credentials'')
   \<and> login None \<lparr>b_title = None, b_complete = None, b_userId = None,
        b_username = Some (JStr ''bob''), b_password = Some (JStr ''pw123456'')\<rparr> Returns 9
       (snd (signup None
       \<lparr>b_title = None, b_complete = None, b_userId = None,
        b_username = Some (JStr ''alice''), b_password = Some (JStr ''pw123456'')\<rparr>
       ''64b0c0ffee0000000000000a'' ''salt'' Returns 0 []))
     = Response 401 (ErrorBody ''Invalid credentials'')"
proof -
  let ?us = "snd (signup None
       \<lparr>b_title = None, b_complete = None, b_userId = None,
        b_username = Some (JStr ''alice''), b_password = Some (JStr ''pw123456'')\<rparr>
       ''64b0c0ffee0000000000000a'' ''salt'' Returns 0 [])"
  let ?u = "\<lparr>u_id = ''64b0c0ffee0000000000000a'', username = ''alice'', password = Bcrypt 10 ''salt'' ''pw123456'',
        u_createdAt = 0\<rparr>"
  let ?good = "\<lparr>b_title = None, b_complete = None, b_userId = None,
        b_username = Some (JStr ''alice''), b_password = Some (JStr ''pw123456'')\<rparr>"
  let ?wrong = "\<lparr>b_title = None, b_complete = None, b_userId = None,
        b_username = Some (JStr ''alice''), b_password = Some (JStr ''wrong'')\<rparr>"
  let ?bob = "\<lparr>b_title = None, b_complete = None, b_userId = None,
        b_username = Some (JStr ''bob''), b_password = Some (JStr ''pw123456'')\<rparr>"
  have e: "trim ''alice'' = ''alice''" "trim ''bob'' = ''bob''"
    "vlen ''alice'' = 5" "vlen ''pw123456'' = 8" by code_simp+
  have r: "registered ?us" by (rule reg_signup [OF reg_init])
  have us: "?us = [?u]"
    using e
    by (simp add: signup_def validateSignup_def check_def standard_def toString_def isLength_def
        notEmpty_def User_findOne_def bcrypt_hash_def Let_def)
  have v: "\<And>un pw. un \<noteq> [] \<Longrightarrow> pw \<noteq> [] \<Longrightarrow> validateLogin \<lparr>b_title = None, b_complete = None,
        b_userId = None, b_username = Some (JStr un), b_password = Some (JStr pw)\<rparr> = []"
    by (simp add: validateLogin_Nil)
  have m: "?u \<in> set ?us" unfolding us by simp
  from login_noninterference [OF r, where env = None and now = 9 and b = ?good
      and un = "''alice''"] m e
  have a: "login None ?good Returns 9 ?us = Response 200 (TokenBody (issue None ''64b0c0ffee0000000000000a'' 9))"
    unfolding us by auto
  from login_noninterference [OF r, where env = None and now = 9 and u = ?u and b = ?wrong
      and un = "''alice''" and pw = "''wrong''"] m v e
  have b: "login None ?wrong Returns 9 ?us = Response 401 (ErrorBody ''Invalid credentials'')"
    by simp
  from login_noninterference [OF r, where env = None and now = 9 and b = ?bob
      and un = "''bob''"] v e
  have c: "login None ?bob Returns 9 ?us = Response 401 (ErrorBody ''Invalid credentials'')"
    unfolding us by simp
  from r a b c show ?thesis by simp
qed

end
